theory Spec2Isabelle
  imports Main "HOL-Library.Sublist" "HOL-Library.Multiset" "HOL-Library.Char_ord"
    "HOL-Library.List_Lexorder"
begin

section \<open>Text: characters, substring test, strip\<close>

text \<open>
  A Python \<open>str\<close> is modelled as a HOL \<open>string\<close>; a character is read as the
  code point of the same number (0 to 255). On this range the decimal digits of
  \<open>\d\<close> are \<open>0\<close> to \<open>9\<close>, and the whitespace of \<open>\s\<close> and of \<open>str.strip()\<close>
  is TAB, LF, VT, FF, CR, FS, GS, RS, US, SPACE, NEL (0x85) and NBSP (0xA0).
\<close>

definition is_space :: "char \<Rightarrow> bool" where
  "is_space c \<longleftrightarrow> c \<in> set [CHR 0x09, CHR 0x0A, CHR 0x0B, CHR 0x0C, CHR 0x0D,
     CHR 0x1C, CHR 0x1D, CHR 0x1E, CHR 0x1F, CHR 0x20, CHR 0x85, CHR 0xA0]"

definition is_digit :: "char \<Rightarrow> bool" where
  "is_digit c \<longleftrightarrow> c \<in> set ''0123456789''"

text \<open>\<open>sub in s\<close>: \<open>sub\<close> occurs in \<open>s\<close> as a contiguous run.\<close>

fun py_in :: "string \<Rightarrow> string \<Rightarrow> bool" where
  "py_in sub [] = (sub = [])"
| "py_in sub (c # cs) = (prefix sub (c # cs) \<or> py_in sub cs)"

text \<open>\<open>s.strip()\<close>: whitespace removed at both ends.\<close>

definition strip :: "string \<Rightarrow> string" where
  "strip s = rev (dropWhile is_space (rev (dropWhile is_space s)))"

section \<open>The two patterns and \<open>re.match\<close>\<close>

text \<open>
  The patterns of \<open>LogParser\<close> use character classes, literal text, exact counts
  \<open>{n}\<close>, the greedy \<open>+\<close> and \<open>*\<close> on a single class, sequencing, and three groups
  that are not nested. \<open>re.match\<close> is a backtracking matcher anchored at the start of
  the string: \<open>rx_run\<close> returns every way to match, in the order the backtracking
  tries them (a greedy repetition tries the longest run first), and \<open>re_match\<close> takes
  the first. A state is the groups captured so far and the text still to read.
\<close>

datatype cclass =
    Digit        \<comment> \<open>\<open>\d\<close>\<close>
  | Space        \<comment> \<open>\<open>\s\<close>\<close>
  | NonSpace     \<comment> \<open>\<open>\S\<close>\<close>
  | NotRBracket  \<comment> \<open>\<open>[^\]]\<close>\<close>
  | Dot          \<comment> \<open>\<open>.\<close>: any character but a newline\<close>

fun cmatch :: "cclass \<Rightarrow> char \<Rightarrow> bool" where
  "cmatch Digit c = is_digit c"
| "cmatch Space c = is_space c"
| "cmatch NonSpace c = (\<not> is_space c)"
| "cmatch NotRBracket c = (c \<noteq> CHR '']'')"
| "cmatch Dot c = (c \<noteq> CHR 0x0A)"

datatype rx =
    Str string         \<comment> \<open>literal text\<close>
  | Exactly nat cclass \<comment> \<open>\<open>c{n}\<close>\<close>
  | Plus cclass        \<comment> \<open>\<open>c+\<close>\<close>
  | Star cclass        \<comment> \<open>\<open>c*\<close>\<close>
  | Seq rx rx
  | Group rx           \<comment> \<open>\<open>(...)\<close>\<close>

text \<open>The texts left after a greedy run of characters of a class, longest run first.\<close>

fun greedy :: "(char \<Rightarrow> bool) \<Rightarrow> string \<Rightarrow> string list" where
  "greedy p [] = [[]]"
| "greedy p (c # cs) = (if p c then greedy p cs @ [c # cs] else [c # cs])"

fun rx_run :: "rx \<Rightarrow> string list \<times> string \<Rightarrow> (string list \<times> string) list" where
  "rx_run (Str k) (g, s) = (if prefix k s then [(g, drop (length k) s)] else [])"
| "rx_run (Exactly n c) (g, s) =
     (if n \<le> length s \<and> list_all (cmatch c) (take n s) then [(g, drop n s)] else [])"
| "rx_run (Plus c) (g, s) =
     (case s of [] \<Rightarrow> []
      | x # xs \<Rightarrow> if cmatch c x then map (Pair g) (greedy (cmatch c) xs) else [])"
| "rx_run (Star c) (g, s) = map (Pair g) (greedy (cmatch c) s)"
| "rx_run (Seq a b) st = concat (map (rx_run b) (rx_run a st))"
| "rx_run (Group a) (g, s) =
     map (\<lambda>(g', r). (g' @ [take (length s - length r) s], r)) (rx_run a (g, s))"

fun cat :: "rx list \<Rightarrow> rx" where
  "cat [] = Str []"
| "cat [r] = r"
| "cat (r # rs) = Seq r (cat rs)"

text \<open>\<open>re.match(pattern, s)\<close>, then \<open>match.groups()\<close>; \<open>None\<close> when nothing matches.\<close>

definition re_match :: "rx \<Rightarrow> string \<Rightarrow> string list option" where
  "re_match r s = (case rx_run r ([], s) of [] \<Rightarrow> None | (g, _) # _ \<Rightarrow> Some g)"

text \<open>\<open>(\d{4}-\d{2}-\d{2}\s+\d{2}:\d{2}:\d{2},\d+)\<close>\<close>

definition TIMESTAMP_GROUP :: rx where
  "TIMESTAMP_GROUP = Group (cat [Exactly 4 Digit, Str ''-'', Exactly 2 Digit, Str ''-'',
     Exactly 2 Digit, Plus Space, Exactly 2 Digit, Str '':'', Exactly 2 Digit, Str '':'',
     Exactly 2 Digit, Str '','', Plus Digit])"

text \<open>\<open>(\d{4}-\d{2}-\d{2}\s+\d{2}:\d{2}:\d{2},\d+)\s+\[([^\]]+)\]\s+(\S+)\s+.*\<close>\<close>

definition PATTERN_FULL :: rx where
  "PATTERN_FULL = cat [TIMESTAMP_GROUP, Plus Space, Str ''['', Group (Plus NotRBracket),
     Str '']'', Plus Space, Group (Plus NonSpace), Plus Space, Star Dot]"

text \<open>\<open>(\d{4}-\d{2}-\d{2}\s+\d{2}:\d{2}:\d{2},\d+)\s+\[([^\]]+)\]\s+(\S+)\s+ALARM\s+is\s+acknowledged.*\<close>\<close>

definition PATTERN_ACK :: rx where
  "PATTERN_ACK = cat [TIMESTAMP_GROUP, Plus Space, Str ''['', Group (Plus NotRBracket),
     Str '']'', Plus Space, Group (Plus NonSpace), Plus Space, Str ''ALARM'', Plus Space,
     Str ''is'', Plus Space, Str ''acknowledged'', Star Dot]"

section \<open>LogParser\<close>

text \<open>
  A parsed record, with the keys of the dictionary that \<open>_create_record\<close> builds.
  \<open>datetime\<close> is the parsed time in nanoseconds since the epoch, or \<open>None\<close>.
\<close>

record alarm_event =
  arquivo_origem :: string
  timestamp :: string
  datetime :: "int option"
  pc_id :: string
  alarm :: string
  alarm_type :: string   \<comment> \<open>the key \<open>'type'\<close>\<close>
  linha_original :: string

text \<open>\<open>TRANSFORM_CONFIG['filters']\<close>\<close>

definition filters :: "string list" where
  "filters = [''CFN'', ''OK'', ''acknowledged'']"

definition determine_type :: "string \<Rightarrow> string" where
  "determine_type line =
     (if py_in ''ALARM is acknowledged'' line then ''ACK''
      else if py_in ''CFN'' line then ''CFN''
      else if py_in ''OK'' line then ''OK''
      else ''N/A'')"

text \<open>
  \<open>to_datetime\<close> stands for \<open>pd.to_datetime(timestamp, format='%Y-%m-%d %H:%M:%S,%f')\<close>
  of pandas: \<open>None\<close> where it raises (the \<open>except\<close> branch sets \<open>dt = None\<close>).
\<close>

definition create_record ::
  "(string \<Rightarrow> int option) \<Rightarrow> string \<Rightarrow> string \<Rightarrow> string \<Rightarrow> string \<Rightarrow> string \<Rightarrow> string
     \<Rightarrow> alarm_event" where
  "create_record to_datetime source_file ts pc al ty original_line =
     \<lparr>arquivo_origem = source_file, timestamp = ts, datetime = to_datetime ts,
      pc_id = pc, alarm = strip al, alarm_type = ty, linha_original = original_line\<rparr>"

text \<open>
  \<open>parse_line\<close>: the filter on the raw line, then the acknowledgment pattern, then
  the general pattern, both on the stripped line. \<open>match.groups()\<close> of either pattern
  has three strings, so the remaining cases of the two \<open>case\<close> expressions stand for
  \<open>None\<close>, no match.
\<close>

definition parse_line :: "(string \<Rightarrow> int option) \<Rightarrow> string \<Rightarrow> string \<Rightarrow> alarm_event option" where
  "parse_line to_datetime line source_file =
     (if \<not> list_ex (\<lambda>filter_term. py_in filter_term line) filters then None
      else
        let line_stripped = strip line;
            ty = determine_type line_stripped
        in case re_match PATTERN_ACK line_stripped of
             Some [ts, pc, al] \<Rightarrow>
               Some (create_record to_datetime source_file ts pc al ''ACK'' line_stripped)
           | _ \<Rightarrow>
             (case re_match PATTERN_FULL line_stripped of
                Some [ts, pc, al] \<Rightarrow>
                  Some (create_record to_datetime source_file ts pc al ty line_stripped)
              | _ \<Rightarrow> None))"

text \<open>\<open>parse_file\<close>: the records of the lines that parse, in the order of the lines.\<close>

definition parse_file :: "(string \<Rightarrow> int option) \<Rightarrow> string list \<Rightarrow> string \<Rightarrow> alarm_event list" where
  "parse_file to_datetime lines source_file =
     List.map_filter (\<lambda>line. parse_line to_datetime line source_file) lines"

text \<open>
  A \<open>DataFrame\<close> of parsed records is the list of its rows. \<open>FileInfo\<close> is the
  dataclass of the reader; a path is the name of a file of the source directory.
\<close>

record file_info =
  filename :: string
  filepath :: string
  lines :: "string list"
  encoding :: string
  line_count :: nat

text \<open>
  \<open>DataFrame.sort_values\<close> is pandas' code. The source calls it with the default
  \<open>kind='quicksort'\<close>, which pandas documents as not stable (only \<open>'mergesort'\<close> and
  \<open>'stable'\<close> are), and the default \<open>na_position='last'\<close>. It is a parameter of the
  functions that call it, and what pandas documents of it is \<open>sorts_by\<close>: the result
  holds the rows of the input, each as often as the input, in ascending order of the key.
\<close>

definition sorts_by :: "('a \<Rightarrow> 'a \<Rightarrow> bool) \<Rightarrow> ('a list \<Rightarrow> 'a list) \<Rightarrow> bool" where
  "sorts_by le sort_values \<longleftrightarrow>
     (\<forall>xs. mset (sort_values xs) = mset xs \<and> sorted_wrt le (sort_values xs))"

text \<open>The order of the column \<open>datetime\<close>: known times ascending, then the absent ones.\<close>

fun dt_le :: "int option \<Rightarrow> int option \<Rightarrow> bool" where
  "dt_le (Some x) (Some y) = (x \<le> y)"
| "dt_le None (Some y) = False"
| "dt_le a None = True"

definition by_datetime :: "alarm_event \<Rightarrow> alarm_event \<Rightarrow> bool" where
  "by_datetime a b = dt_le (datetime a) (datetime b)"

text \<open>The order of the columns \<open>['pc_id', 'alarm', 'datetime']\<close>, the first column first.\<close>

definition by_pc_alarm_datetime :: "alarm_event \<Rightarrow> alarm_event \<Rightarrow> bool" where
  "by_pc_alarm_datetime a b =
     (pc_id a < pc_id b \<or>
      (pc_id a = pc_id b \<and>
        (alarm a < alarm b \<or> (alarm a = alarm b \<and> dt_le (datetime a) (datetime b)))))"

text \<open>
  \<open>parse_multiple_files\<close>: the frames of the files that gave a record are concatenated
  in the order of the files and sorted by \<open>datetime\<close>; with no such frame the result is
  the empty frame.
\<close>

definition parse_multiple_files ::
  "(alarm_event list \<Rightarrow> alarm_event list) \<Rightarrow> (string \<Rightarrow> int option) \<Rightarrow> file_info list
     \<Rightarrow> alarm_event list" where
  "parse_multiple_files sort_values to_datetime file_infos =
     (let dataframes = filter (\<lambda>df. df \<noteq> [])
            (map (\<lambda>fi. parse_file to_datetime (lines fi) (filename fi)) file_infos)
      in if dataframes = [] then [] else sort_values (concat dataframes))"

definition group_alarm_sequences ::
  "(alarm_event list \<Rightarrow> alarm_event list) \<Rightarrow> alarm_event list \<Rightarrow> alarm_event list" where
  "group_alarm_sequences sort_values df = (if df = [] then df else sort_values df)"

text \<open>
  The statistics dictionary: a map from its keys to values. \<open>value_counts().to_dict()\<close>
  is the map from each value of a column to the number of its rows.
\<close>

datatype stat_value = IntV int | CountsV "string \<Rightarrow> nat option" | TimeV int

definition value_counts :: "string list \<Rightarrow> string \<Rightarrow> nat option" where
  "value_counts col = (\<lambda>k. if k \<in> set col then Some (count_list col k) else None)"

definition nunique :: "string list \<Rightarrow> int" where
  "nunique col = int (length (remdups col))"

definition NS_PER_DAY :: int where
  "NS_PER_DAY = 86400000000000"

definition get_statistics :: "alarm_event list \<Rightarrow> string \<Rightarrow> stat_value option" where
  "get_statistics df =
     (if df = [] then Map.empty
      else
        let stats = [''total_records'' \<mapsto> IntV (int (length df)),
                     ''unique_alarms'' \<mapsto> IntV (nunique (map alarm df)),
                     ''unique_pc_ids'' \<mapsto> IntV (nunique (map pc_id df)),
                     ''records_by_type'' \<mapsto> CountsV (value_counts (map alarm_type df)),
                     ''records_by_file'' \<mapsto> CountsV (value_counts (map arquivo_origem df))]
        in case List.map_filter datetime df of
             [] \<Rightarrow> stats
           | t # ts \<Rightarrow>
               let period_start = fold min ts t; period_end = fold max ts t
               in stats(''period_start'' \<mapsto> TimeV period_start,
                        ''period_end'' \<mapsto> TimeV period_end,
                        ''period_days'' \<mapsto> IntV ((period_end - period_start) div NS_PER_DAY)))"

section \<open>FileReader\<close>

text \<open>
  The source directory as \<open>list_files\<close> sees it: it does not exist, or listing it
  raises (the \<open>except\<close> branch), or it has entries, each a name and whether it is a
  regular file.
\<close>

record dir_entry =
  name :: string
  is_file :: bool

datatype directory = Missing | Unreadable | Listing "dir_entry list"

text \<open>
  \<open>Path.suffix\<close> of pathlib: the name from its last dot on, when that dot is neither the
  first nor the last character of the name; the empty string otherwise.
\<close>

definition path_suffix :: "string \<Rightarrow> string" where
  "path_suffix nm =
     (let upto_dot = dropWhile (\<lambda>c. c \<noteq> CHR ''.'') (rev nm)
      in if upto_dot = [] then []
         else let i = length upto_dot - 1
              in if 0 < i \<and> i < length nm - 1 then drop i nm else [])"

text \<open>\<open>str.upper\<close> on ASCII text; \<open>list_files\<close> takes \<open>str.upper\<close> as a parameter.\<close>

definition ascii_upper :: "string \<Rightarrow> string" where
  "ascii_upper s = map (\<lambda>c. case map_of (zip ''abcdefghijklmnopqrstuvwxyz''
       ''ABCDEFGHIJKLMNOPQRSTUVWXYZ'') c of Some u \<Rightarrow> u | None \<Rightarrow> c) s"

definition list_files :: "(string \<Rightarrow> string) \<Rightarrow> string \<Rightarrow> directory \<Rightarrow> string list" where
  "list_files upper file_extension d =
     (case d of
        Missing \<Rightarrow> []
      | Unreadable \<Rightarrow> []
      | Listing entries \<Rightarrow>
          sort (map name (filter (\<lambda>f. is_file f \<and>
                  upper (path_suffix (name f)) = upper file_extension) entries)))"

text \<open>\<open>EXTRACT_CONFIG['encodings_to_try']\<close>\<close>

definition encodings_to_try :: "string list" where
  "encodings_to_try = [''utf-8'', ''latin-1'', ''iso-8859-1'', ''cp1252'', ''windows-1252'',
     ''cp850'']"

text \<open>
  \<open>read_file\<close>: the encodings are tried in order. \<open>readlines enc path\<close> is what opening
  the file with the encoding and reading its lines gives, \<open>None\<close> where that raises.
\<close>

fun read_file ::
  "(string \<Rightarrow> string \<Rightarrow> string list option) \<Rightarrow> string list \<Rightarrow> string \<Rightarrow> file_info option" where
  "read_file readlines [] path = None"
| "read_file readlines (enc # encs) path =
     (case readlines enc path of
        Some ls \<Rightarrow> Some \<lparr>filename = path, filepath = path, lines = ls, encoding = enc,
                         line_count = length ls\<rparr>
      | None \<Rightarrow> read_file readlines encs path)"

definition read_all_files ::
  "(string \<Rightarrow> string \<Rightarrow> string list option) \<Rightarrow> string list \<Rightarrow> (string \<Rightarrow> string) \<Rightarrow> string
     \<Rightarrow> directory \<Rightarrow> file_info list" where
  "read_all_files readlines encodings upper file_extension d =
     (let files = list_files upper file_extension d
      in if files = [] then [] else List.map_filter (read_file readlines encodings) files)"

section \<open>DatabaseLoader\<close>

text \<open>
  The loader's state: the rows of the two tables, the objects added to the session and
  not yet committed, and what was logged. A row of \<open>alarm_logs\<close> is a record with its
  \<open>created_at\<close>. A logged message is its level and the fixed ASCII part of its text.
\<close>

datatype log_level = INFO | WARNING | ERROR

record etl_row =
  total_files :: stat_value
  total_records :: stat_value
  cfn_count :: stat_value
  ok_count :: stat_value
  ack_count :: stat_value
  period_start :: "stat_value option"
  period_end :: "stat_value option"
  execution_time_seconds :: int
  status :: string

record loader =
  alarm_logs :: "(alarm_event \<times> int) list"
  etl_statistics :: "etl_row list"
  pending :: "etl_row list"
  logged :: "(log_level \<times> string) list"

definition logger :: "log_level \<Rightarrow> string \<Rightarrow> loader \<Rightarrow> loader" where
  "logger lvl msg st = st\<lparr>logged := logged st @ [(lvl, msg)]\<rparr>"

text \<open>\<open>PERFORMANCE_CONFIG['batch_size']\<close>\<close>

definition batch_size :: nat where
  "batch_size = 1000"

text \<open>
  \<open>load_dataframe\<close>. \<open>to_sql rows table_name if_exists chunksize st\<close> is pandas'
  \<open>DataFrame.to_sql\<close> on the engine: whether it returned (\<open>False\<close>: it raised) and the
  state it left. \<open>now\<close> is the clock read for \<open>created_at\<close>.
\<close>

definition load_dataframe ::
  "((alarm_event \<times> int) list \<Rightarrow> string \<Rightarrow> string \<Rightarrow> nat \<Rightarrow> loader \<Rightarrow> bool \<times> loader) \<Rightarrow> int
     \<Rightarrow> loader \<Rightarrow> alarm_event list \<Rightarrow> string \<Rightarrow> string \<Rightarrow> bool \<times> loader" where
  "load_dataframe to_sql now st df table_name if_exists =
     (if df = [] then (False, logger WARNING ''DataFrame vazio, nada para carregar'' st)
      else
        let df_copy = map (\<lambda>e. (e, now)) df;
            st1 = logger INFO ''Iniciando carga'' st
        in case to_sql df_copy table_name if_exists batch_size st1 of
             (True, st2) \<Rightarrow> (True, logger INFO ''registros carregados'' st2)
           | (False, st2) \<Rightarrow> (False, logger ERROR ''Erro ao carregar dados'' st2))"

text \<open>
  The session: \<open>add\<close> queues an object, \<open>commit\<close> writes the queued objects to the table
  in one transaction or raises and writes nothing (\<open>db_ok\<close> says which), \<open>rollback\<close>
  drops what is queued.
\<close>

definition session_add :: "etl_row \<Rightarrow> loader \<Rightarrow> loader" where
  "session_add row st = st\<lparr>pending := pending st @ [row]\<rparr>"

definition session_commit :: "bool \<Rightarrow> loader \<Rightarrow> loader option" where
  "session_commit db_ok st =
     (if db_ok then Some (st\<lparr>etl_statistics := etl_statistics st @ pending st, pending := []\<rparr>)
      else None)"

definition session_rollback :: "loader \<Rightarrow> loader" where
  "session_rollback st = st\<lparr>pending := []\<rparr>"

text \<open>\<open>stats.get(key, 0)\<close>\<close>

definition get_or_zero :: "(string \<Rightarrow> stat_value option) \<Rightarrow> string \<Rightarrow> stat_value" where
  "get_or_zero stats key = (case stats key of Some v \<Rightarrow> v | None \<Rightarrow> IntV 0)"

text \<open>
  \<open>stats.get('records_by_type', {}).get(key, 0)\<close>: \<open>None\<close> where the value under
  \<open>'records_by_type'\<close> is no dictionary and \<open>.get\<close> raises.
\<close>

definition type_count :: "(string \<Rightarrow> stat_value option) \<Rightarrow> string \<Rightarrow> stat_value option" where
  "type_count stats key =
     (case stats ''records_by_type'' of
        None \<Rightarrow> Some (IntV 0)
      | Some (CountsV m) \<Rightarrow> Some (case m key of Some n \<Rightarrow> IntV (int n) | None \<Rightarrow> IntV 0)
      | Some _ \<Rightarrow> None)"

text \<open>
  The \<open>ETLStatistics\<close> object; \<open>None\<close> where building it raises.
  \<open>int_execution_time\<close> is \<open>int(execution_time)\<close>, \<open>None\<close> where that raises (the
  float is a NaN or an infinity).
\<close>

definition make_etl_row ::
  "(string \<Rightarrow> stat_value option) \<Rightarrow> int option \<Rightarrow> string \<Rightarrow> etl_row option" where
  "make_etl_row stats int_execution_time st_status =
     (case (type_count stats ''CFN'', type_count stats ''OK'', type_count stats ''ACK'',
            int_execution_time) of
        (Some cfn, Some ok, Some ack, Some secs) \<Rightarrow>
          Some \<lparr>total_files = get_or_zero stats ''total_files'',
                total_records = get_or_zero stats ''total_records'',
                cfn_count = cfn, ok_count = ok, ack_count = ack,
                period_start = stats ''period_start'', period_end = stats ''period_end'',
                execution_time_seconds = secs, status = st_status\<rparr>
      | _ \<Rightarrow> None)"

definition save_etl_statistics ::
  "bool \<Rightarrow> loader \<Rightarrow> (string \<Rightarrow> stat_value option) \<Rightarrow> int option \<Rightarrow> string \<Rightarrow> bool \<times> loader" where
  "save_etl_statistics db_ok st stats int_execution_time st_status =
     (case make_etl_row stats int_execution_time st_status of
        None \<Rightarrow> (False, session_rollback (logger ERROR ''Erro ao salvar estatisticas'' st))
      | Some etl_stat \<Rightarrow>
          let st1 = session_add etl_stat st
          in case session_commit db_ok st1 of
               Some st2 \<Rightarrow> (True, logger INFO ''Estatisticas de ETL salvas'' st2)
             | None \<Rightarrow>
                 (False, session_rollback (logger ERROR ''Erro ao salvar estatisticas'' st1)))"

section \<open>Sorting routines that meet the contract of \<open>sort_values\<close>\<close>

text \<open>
  Insertion sort by a relation, and the same sort run on the reversed input. Both
  return the rows of the input in ascending order; they differ in the order of rows
  with equal keys.
\<close>

fun insort_by :: "('a \<Rightarrow> 'a \<Rightarrow> bool) \<Rightarrow> 'a \<Rightarrow> 'a list \<Rightarrow> 'a list" where
  "insort_by le x [] = [x]"
| "insort_by le x (y # ys) = (if le x y then x # y # ys else y # insort_by le x ys)"

definition isort_by :: "('a \<Rightarrow> 'a \<Rightarrow> bool) \<Rightarrow> 'a list \<Rightarrow> 'a list" where
  "isort_by le xs = foldr (insort_by le) xs []"


section \<open>Sample inputs\<close>

text \<open>Three log lines, a clock for their timestamps, and the records they parse to.\<close>

definition line_cfn :: string where
  "line_cfn = ''2025-10-05 07:12:33,4 [PC510A00] FMDOS01 CFN ALARM Erro dosagem''"

definition line_ok :: string where
  "line_ok = ''2025-10-05 07:14:01,0 [PC510A00] FMDOS01 OK ALARM Erro dosagem''"

definition line_cfn_other :: string where
  "line_cfn_other = ''2025-10-05 07:12:33,4 [PC520A00] FMMIX02 CFN ALARM Erro mistura''"

definition sample_clock :: "string \<Rightarrow> int option" where
  "sample_clock = [''2025-10-05 07:12:33,4'' \<mapsto> 1, ''2025-10-05 07:14:01,0'' \<mapsto> 2]"

definition event_cfn :: "string \<Rightarrow> alarm_event" where
  "event_cfn f = \<lparr>arquivo_origem = f, timestamp = ''2025-10-05 07:12:33,4'', datetime = Some 1,
     pc_id = ''PC510A00'', alarm = ''FMDOS01'', alarm_type = ''CFN'', linha_original = line_cfn\<rparr>"

definition event_ok :: "string \<Rightarrow> alarm_event" where
  "event_ok f = \<lparr>arquivo_origem = f, timestamp = ''2025-10-05 07:14:01,0'', datetime = Some 2,
     pc_id = ''PC510A00'', alarm = ''FMDOS01'', alarm_type = ''OK'', linha_original = line_ok\<rparr>"

definition event_cfn_other :: "string \<Rightarrow> alarm_event" where
  "event_cfn_other f = \<lparr>arquivo_origem = f, timestamp = ''2025-10-05 07:12:33,4'',
     datetime = Some 1, pc_id = ''PC520A00'', alarm = ''FMMIX02'', alarm_type = ''CFN'',
     linha_original = line_cfn_other\<rparr>"

definition sample_file :: "string \<Rightarrow> string list \<Rightarrow> file_info" where
  "sample_file f ls = \<lparr>filename = f, filepath = f, lines = ls, encoding = ''utf-8'',
     line_count = length ls\<rparr>"

text \<open>Two stand-ins for \<open>to_sql\<close>: one that raises, one that appends.\<close>

definition failing_to_sql ::
  "(alarm_event \<times> int) list \<Rightarrow> string \<Rightarrow> string \<Rightarrow> nat \<Rightarrow> loader \<Rightarrow> bool \<times> loader" where
  "failing_to_sql rows table_name if_exists chunksize st = (False, st)"

definition append_to_sql ::
  "(alarm_event \<times> int) list \<Rightarrow> string \<Rightarrow> string \<Rightarrow> nat \<Rightarrow> loader \<Rightarrow> bool \<times> loader" where
  "append_to_sql rows table_name if_exists chunksize st =
     (True, st\<lparr>alarm_logs := alarm_logs st @ rows\<rparr>)"

definition empty_loader :: loader where
  "empty_loader = \<lparr>alarm_logs = [], etl_statistics = [], pending = [], logged = []\<rparr>"

text \<open>The statistics row of a run with no counts.\<close>

definition zero_row :: "int \<Rightarrow> string \<Rightarrow> etl_row" where
  "zero_row secs st_status = \<lparr>total_files = IntV 0, total_records = IntV 0, cfn_count = IntV 0,
     ok_count = IntV 0, ack_count = IntV 0, period_start = None, period_end = None,
     execution_time_seconds = secs, status = st_status\<rparr>"

text \<open>A source directory, and a reader that cannot decode \<open>b.log\<close>.\<close>

definition sample_entries :: "dir_entry list" where
  "sample_entries = [\<lparr>name = ''b.log'', is_file = True\<rparr>,
     \<lparr>name = ''notes.txt'', is_file = True\<rparr>, \<lparr>name = ''A.LOG'', is_file = True\<rparr>,
     \<lparr>name = ''old.log'', is_file = False\<rparr>, \<lparr>name = ''.log'', is_file = True\<rparr>,
     \<lparr>name = ''c.Log'', is_file = True\<rparr>]"

definition sample_directory :: directory where
  "sample_directory = Listing sample_entries"

definition sample_readlines :: "string \<Rightarrow> string \<Rightarrow> string list option" where
  "sample_readlines enc path =
     (if path = ''b.log'' then None
      else if enc = ''latin-1'' then Some [line_cfn] else None)"

section \<open>Measures of a pattern, for the proofs\<close>

text \<open>The number of groups of a pattern: the length of \<open>match.groups()\<close>.\<close>

fun ngroups :: "rx \<Rightarrow> nat" where
  "ngroups (Seq a b) = ngroups a + ngroups b"
| "ngroups (Group a) = Suc (ngroups a)"
| "ngroups _ = 0"

text \<open>A pattern needs a text \<open>k\<close> when it only matches strings that hold \<open>k\<close>.\<close>

definition needs :: "string \<Rightarrow> rx \<Rightarrow> bool" where
  "needs k e \<longleftrightarrow> (\<forall>g s. rx_run e (g, s) \<noteq> [] \<longrightarrow> sublist k s)"

section \<open>Facts about the matcher\<close>

lemma py_in_sublist: "py_in k s \<longleftrightarrow> sublist k s"
  by (induction s) (auto simp: sublist_Cons_right)

lemma sublist_chain: "sublist xs ys \<Longrightarrow> sublist ys zs \<Longrightarrow> sublist xs zs"
  by (rule sublist_order.order_trans)

lemma sublist_strip: "sublist (strip s) s"
proof -
  have "sublist (strip s) (dropWhile is_space s)"
    unfolding strip_def by (simp add: sublist_rev_left)
  moreover have "sublist (dropWhile is_space s) s" by simp
  ultimately show ?thesis by (rule sublist_chain)
qed

lemma dropWhile_keeps:
  "\<not> P c \<Longrightarrow> \<exists>ps'. dropWhile P (ps @ c # rest) = ps' @ c # rest"
proof (induction ps)
  case Nil
  then show ?case by simp
next
  case (Cons a ps)
  show ?case
  proof (cases "P a")
    case True
    with Cons show ?thesis by simp
  next
    case False
    then have "dropWhile P ((a # ps) @ c # rest) = (a # ps) @ c # rest" by simp
    then show ?thesis by blast
  qed
qed

lemma sublist_strip_keeps:
  assumes k: "k \<noteq> []" "\<not> is_space (hd k)" "\<not> is_space (last k)" and s: "sublist k s"
  shows "sublist k (strip s)"
proof -
  from s obtain ps ss where e: "s = ps @ k @ ss" by (auto simp: sublist_def)
  from k(1) obtain c k' where kc: "k = c # k'" by (cases k) auto
  with k(2) have "\<not> is_space c" by simp
  from dropWhile_keeps [where P = is_space and c = c and ps = ps and rest = "k' @ ss", OF this]
    e kc
  obtain ps' where d: "dropWhile is_space s = ps' @ k @ ss" by auto
  from k(1) obtain b k'' where kb: "rev k = b # k''" by (cases "rev k") auto
  then have "b = last k" using k(1) by (metis last_rev list.sel(1) rev_rev_ident hd_rev)
  with k(3) have "\<not> is_space b" by simp
  from dropWhile_keeps [where P = is_space and c = b and ps = "rev ss"
      and rest = "k'' @ rev ps'", OF this] kb
  obtain ss' where "dropWhile is_space (rev ss @ rev k @ rev ps') = ss' @ rev k @ rev ps'"
    by auto
  then have "strip s = ps' @ k @ rev ss'"
    unfolding strip_def d by simp
  then show ?thesis by (auto simp: sublist_def)
qed

lemma py_in_strip:
  assumes "k \<noteq> []" "\<not> is_space (hd k)" "\<not> is_space (last k)"
  shows "py_in k (strip s) \<longleftrightarrow> py_in k s"
  unfolding py_in_sublist
  using sublist_strip_keeps [OF assms] sublist_chain [OF _ sublist_strip] by blast

lemma py_in_strip_markers:
  "py_in ''CFN'' (strip s) = py_in ''CFN'' s"
  "py_in ''OK'' (strip s) = py_in ''OK'' s"
  "py_in ''ALARM is acknowledged'' (strip s) = py_in ''ALARM is acknowledged'' s"
  by (rule py_in_strip; simp add: is_space_def)+

lemma greedy_suffix: "r \<in> set (greedy p s) \<Longrightarrow> suffix r s"
  by (induction s) (auto simp: suffix_Cons split: if_splits)

lemma rx_run_suffix: "(g', r) \<in> set (rx_run e (g, s)) \<Longrightarrow> suffix r s"
proof (induction e arbitrary: g s g' r)
  case (Str k)
  then show ?case by (auto split: if_splits simp: suffix_drop)
next
  case (Exactly n c)
  then show ?case by (auto split: if_splits simp: suffix_drop)
next
  case (Plus c)
  then show ?case
    by (auto split: list.splits if_splits dest!: greedy_suffix simp: suffix_Cons)
next
  case (Star c)
  then show ?case by (auto dest: greedy_suffix)
next
  case (Seq a b)
  from Seq.prems obtain g1 s1 where m: "(g1, s1) \<in> set (rx_run a (g, s))"
    and e: "(g', r) \<in> set (rx_run b (g1, s1))" by auto
  from Seq.IH(1)[OF m] Seq.IH(2)[OF e] show ?case by (rule suffix_order.trans[rotated])
next
  case (Group a)
  then show ?case by auto
qed

lemma rx_run_groups: "(g', r) \<in> set (rx_run e (g, s)) \<Longrightarrow> length g' = length g + ngroups e"
proof (induction e arbitrary: g s g' r)
  case (Seq a b)
  from Seq.prems obtain g1 s1 where m: "(g1, s1) \<in> set (rx_run a (g, s))"
    and e: "(g', r) \<in> set (rx_run b (g1, s1))" by auto
  from Seq.IH(1)[OF m] Seq.IH(2)[OF e] show ?case by simp
next
  case (Group a)
  then show ?case by auto
qed (auto split: if_splits list.splits)

lemma needs_here: "needs k (Seq (Str k) b)"
  unfolding needs_def by (auto split: if_splits)

lemma needs_later: "needs k b \<Longrightarrow> needs k (Seq a b)"
  unfolding needs_def
proof (intro allI impI)
  fix g s assume nb: "\<forall>g s. rx_run b (g, s) \<noteq> [] \<longrightarrow> sublist k s"
    and ne: "rx_run (Seq a b) (g, s) \<noteq> []"
  from ne obtain g1 s1 where m: "(g1, s1) \<in> set (rx_run a (g, s))"
    and e: "rx_run b (g1, s1) \<noteq> []" by auto
  from nb e have "sublist k s1" by blast
  moreover from rx_run_suffix[OF m] have "sublist s1 s" by simp
  ultimately show "sublist k s" by (rule sublist_chain)
qed

lemma needs_ack: "needs ''acknowledged'' PATTERN_ACK"
  unfolding PATTERN_ACK_def by (simp add: needs_here needs_later)

lemma ngroups_ack: "ngroups PATTERN_ACK = 3"
  by (simp add: PATTERN_ACK_def TIMESTAMP_GROUP_def)

lemma ngroups_full: "ngroups PATTERN_FULL = 3"
  by (simp add: PATTERN_FULL_def TIMESTAMP_GROUP_def)

lemma re_match_three:
  assumes "ngroups e = 3" "re_match e s = Some g"
  shows "\<exists>ts pc al. g = [ts, pc, al]"
proof -
  from assms(2) obtain r rest where "rx_run e ([], s) = (g, r) # rest"
    by (auto simp: re_match_def split: list.splits)
  then have "(g, r) \<in> set (rx_run e ([], s))" by simp
  from rx_run_groups[OF this] assms(1) have "length g = 3" by simp
  then show ?thesis by (auto simp: length_Suc_conv numeral_3_eq_3)
qed

lemma re_match_ack_contains:
  assumes "re_match PATTERN_ACK s = Some g"
  shows "sublist ''acknowledged'' s"
proof -
  from assms have "rx_run PATTERN_ACK ([], s) \<noteq> []"
    by (auto simp: re_match_def split: list.splits)
  with needs_ack show ?thesis unfolding needs_def by blast
qed

lemmas matcher_defs = re_match_def PATTERN_FULL_def PATTERN_ACK_def TIMESTAMP_GROUP_def
  is_space_def is_digit_def

lemmas parser_defs = parse_line_def create_record_def determine_type_def filters_def
  strip_def Let_def

section \<open>The parser's claims\<close>

text \<open>
  Claim C1, as amended. The stage of a record that \<open>parse_line\<close> returns is one of
  \<open>ACK\<close>, \<open>CFN\<close>, \<open>OK\<close> and \<open>N/A\<close>, the four values of \<open>determine_type\<close>. It is
  \<open>N/A\<close> only for a line that holds \<open>acknowledged\<close> and none of
  \<open>ALARM is acknowledged\<close>, \<open>CFN\<close> and \<open>OK\<close>. A line whose stripped text matches neither
  pattern gives no record.
\<close>

theorem parse_line_stage_values:
  "(parse_line to_datetime line source_file = Some r \<longrightarrow>
      alarm_type r \<in> {''ACK'', ''CFN'', ''OK'', ''N/A''}) \<and>
   (parse_line to_datetime line source_file = Some r \<and> alarm_type r = ''N/A'' \<longrightarrow>
      py_in ''acknowledged'' line \<and> \<not> py_in ''ALARM is acknowledged'' line \<and>
      \<not> py_in ''CFN'' line \<and> \<not> py_in ''OK'' line) \<and>
   (re_match PATTERN_ACK (strip line) = None \<and> re_match PATTERN_FULL (strip line) = None \<longrightarrow>
      parse_line to_datetime line source_file = None)"
proof (intro conjI impI)
  assume "parse_line to_datetime line source_file = Some r"
  then show "alarm_type r \<in> {''ACK'', ''CFN'', ''OK'', ''N/A''}"
    by (auto simp: parse_line_def create_record_def determine_type_def Let_def
        split: if_splits option.splits list.splits)
next
  assume a: "parse_line to_datetime line source_file = Some r \<and> alarm_type r = ''N/A''"
  then have f: "py_in ''CFN'' line \<or> py_in ''OK'' line \<or> py_in ''acknowledged'' line"
    by (auto simp: parse_line_def filters_def split: if_splits)
  from a have "determine_type (strip line) = ''N/A''"
    by (auto simp: parse_line_def create_record_def Let_def
        split: if_splits option.splits list.splits)
  then have "\<not> py_in ''ALARM is acknowledged'' (strip line) \<and> \<not> py_in ''CFN'' (strip line) \<and>
      \<not> py_in ''OK'' (strip line)"
    by (simp add: determine_type_def split: if_splits)
  then have n: "\<not> py_in ''ALARM is acknowledged'' line \<and> \<not> py_in ''CFN'' line \<and>
      \<not> py_in ''OK'' line"
    by (simp add: py_in_strip_markers)
  with f show "py_in ''acknowledged'' line" by blast
  from n show "\<not> py_in ''ALARM is acknowledged'' line" "\<not> py_in ''CFN'' line"
    "\<not> py_in ''OK'' line" by blast+
next
  assume "re_match PATTERN_ACK (strip line) = None \<and> re_match PATTERN_FULL (strip line) = None"
  then show "parse_line to_datetime line source_file = None"
    by (auto simp: parse_line_def Let_def)
qed

text \<open>
  The theorem at three lines: a confirmation line, whose record has the stage \<open>CFN\<close>;
  a line that passes the filter (it holds \<open>OK\<close>) and matches neither pattern; and a
  line with the stage \<open>N/A\<close>, which holds \<open>acknowledged\<close>.
\<close>

theorem parse_line_stage_values_witness:
  "alarm_type \<lparr>arquivo_origem = ''a.log'', timestamp = ''2025-10-05 07:12:33,4'',
      datetime = None, pc_id = ''PC510A00'', alarm = ''FMDOS01'', alarm_type = ''CFN'',
      linha_original = ''2025-10-05 07:12:33,4 [PC510A00] FMDOS01 CFN ALARM Erro dosagem''\<rparr>
     \<in> {''ACK'', ''CFN'', ''OK'', ''N/A''} \<and>
   parse_line Map.empty ''status OK, nothing to report'' ''a.log'' = None \<and>
   py_in ''acknowledged'' ''2025-10-05 07:14:01,0 [PC510A00] FMDOS01 was acknowledged''"
proof -
  have p: "parse_line Map.empty
      ''2025-10-05 07:12:33,4 [PC510A00] FMDOS01 CFN ALARM Erro dosagem'' ''a.log'' =
    Some \<lparr>arquivo_origem = ''a.log'', timestamp = ''2025-10-05 07:12:33,4'',
      datetime = None, pc_id = ''PC510A00'', alarm = ''FMDOS01'', alarm_type = ''CFN'',
      linha_original = ''2025-10-05 07:12:33,4 [PC510A00] FMDOS01 CFN ALARM Erro dosagem''\<rparr>"
    by (simp add: parser_defs matcher_defs)
  have n: "re_match PATTERN_ACK (strip ''status OK, nothing to report'') = None \<and>
    re_match PATTERN_FULL (strip ''status OK, nothing to report'') = None"
    by (simp add: strip_def matcher_defs)
  have q: "parse_line Map.empty
      ''2025-10-05 07:14:01,0 [PC510A00] FMDOS01 was acknowledged'' ''a.log'' =
    Some \<lparr>arquivo_origem = ''a.log'', timestamp = ''2025-10-05 07:14:01,0'',
      datetime = None, pc_id = ''PC510A00'', alarm = ''FMDOS01'', alarm_type = ''N/A'',
      linha_original = ''2025-10-05 07:14:01,0 [PC510A00] FMDOS01 was acknowledged''\<rparr> \<and>
    alarm_type \<lparr>arquivo_origem = ''a.log'', timestamp = ''2025-10-05 07:14:01,0'',
      datetime = None, pc_id = ''PC510A00'', alarm = ''FMDOS01'', alarm_type = ''N/A'',
      linha_original = ''2025-10-05 07:14:01,0 [PC510A00] FMDOS01 was acknowledged''\<rparr> =
      ''N/A''"
    by (simp add: parser_defs matcher_defs)
  from parse_line_stage_values [THEN conjunct1, rule_format, OF p]
    parse_line_stage_values [THEN conjunct2, THEN conjunct2, rule_format, OF n]
    parse_line_stage_values [THEN conjunct2, THEN conjunct1, rule_format, OF q]
  show ?thesis by blast
qed

text \<open>
  Claim C1 as it is written fails: this line passes the filter through the term
  \<open>acknowledged\<close>, holds none of \<open>ALARM is acknowledged\<close>, \<open>CFN\<close> and \<open>OK\<close>, does not
  match the acknowledgment pattern and matches the general one. Its record has the
  stage \<open>N/A\<close>.
\<close>

theorem parse_line_stage_counterexample:
  "parse_line Map.empty
      ''2025-10-05 07:14:01,0 [PC510A00] FMDOS01 ALARM acknowledged by operator'' ''a.log'' =
    Some \<lparr>arquivo_origem = ''a.log'', timestamp = ''2025-10-05 07:14:01,0'',
      datetime = None, pc_id = ''PC510A00'', alarm = ''FMDOS01'', alarm_type = ''N/A'',
      linha_original =
        ''2025-10-05 07:14:01,0 [PC510A00] FMDOS01 ALARM acknowledged by operator''\<rparr> \<and>
   ''N/A'' \<notin> {''ACK'', ''CFN'', ''OK''}"
  by (simp add: parser_defs matcher_defs)

text \<open>
  Claim C5. A line whose stripped text matches the acknowledgment pattern gives a
  record of stage \<open>ACK\<close>, whatever else the line holds: the pattern needs the text
  \<open>acknowledged\<close>, so the line passes the filter, and the acknowledgment pattern is tried
  first.
\<close>

theorem ack_pattern_first:
  assumes "re_match PATTERN_ACK (strip line) = Some g"
  shows "\<exists>r. parse_line to_datetime line source_file = Some r \<and> alarm_type r = ''ACK''"
proof -
  from re_match_three[OF ngroups_ack assms] obtain ts pc al where g: "g = [ts, pc, al]"
    by blast
  have "sublist ''acknowledged'' (strip line)" by (rule re_match_ack_contains[OF assms])
  then have "sublist ''acknowledged'' line" using sublist_strip by (rule sublist_chain)
  then have "py_in ''acknowledged'' line" by (simp only: py_in_sublist)
  then have f: "list_ex (\<lambda>filter_term. py_in filter_term line) filters"
    by (simp add: filters_def)
  show ?thesis using f assms g
    by (simp add: parse_line_def create_record_def Let_def)
qed

text \<open>The theorem at an acknowledgment line that also holds \<open>CFN\<close> and \<open>OK\<close>.\<close>

theorem ack_pattern_first_witness:
  "re_match PATTERN_ACK
      (strip ''2025-10-05 07:14:01,0 [PC510A00] CFN01 ALARM is acknowledged by PC520A00::CFN OK'') =
    Some [''2025-10-05 07:14:01,0'', ''PC510A00'', ''CFN01''] \<and>
   (\<exists>r. parse_line Map.empty
      ''2025-10-05 07:14:01,0 [PC510A00] CFN01 ALARM is acknowledged by PC520A00::CFN OK''
      ''a.log'' = Some r \<and> alarm_type r = ''ACK'')"
proof -
  have m: "re_match PATTERN_ACK
      (strip ''2025-10-05 07:14:01,0 [PC510A00] CFN01 ALARM is acknowledged by PC520A00::CFN OK'') =
    Some [''2025-10-05 07:14:01,0'', ''PC510A00'', ''CFN01'']"
    by (simp add: strip_def matcher_defs)
  from m ack_pattern_first[OF m] show ?thesis by blast
qed

text \<open>
  Claim C6. The file with the one line
  \<open>2025-10-05 07:12:33,4 [PC510A00] FMDOS01 CFN ALARM Erro dosagem\<close> gives exactly one
  record, of stage \<open>CFN\<close>, device \<open>PC510A00\<close> and alarm \<open>FMDOS01\<close>, whatever the file
  is called and whatever time the timestamp parses to.
\<close>

theorem scenario_confirmed_line:
  "parse_file to_datetime
      [''2025-10-05 07:12:33,4 [PC510A00] FMDOS01 CFN ALARM Erro dosagem''] source_file =
    [\<lparr>arquivo_origem = source_file, timestamp = ''2025-10-05 07:12:33,4'',
      datetime = to_datetime ''2025-10-05 07:12:33,4'', pc_id = ''PC510A00'',
      alarm = ''FMDOS01'', alarm_type = ''CFN'',
      linha_original = ''2025-10-05 07:12:33,4 [PC510A00] FMDOS01 CFN ALARM Erro dosagem''\<rparr>]"
  by (simp add: parse_file_def List.map_filter_def parser_defs matcher_defs)

text \<open>The theorem for the file \<open>a.log\<close> and a timestamp that does not parse.\<close>

theorem scenario_confirmed_line_witness:
  "map (\<lambda>r. (alarm_type r, pc_id r, alarm r))
     (parse_file Map.empty
        [''2025-10-05 07:12:33,4 [PC510A00] FMDOS01 CFN ALARM Erro dosagem''] ''a.log'') =
    [(''CFN'', ''PC510A00'', ''FMDOS01'')]"
  by (simp add: scenario_confirmed_line [of Map.empty "''a.log''"])

section \<open>Facts about the sorting routines\<close>

lemma mset_insort_by: "mset (insort_by le x xs) = add_mset x (mset xs)"
  by (induction xs) auto

lemma mset_isort_by: "mset (isort_by le xs) = mset xs"
  unfolding isort_by_def by (induction xs) (auto simp: mset_insort_by)

lemma set_insort_by: "set (insort_by le x xs) = insert x (set xs)"
  by (induction xs) auto

lemma sorted_insort_by:
  assumes total: "\<And>a b. le a b \<or> le b a" and trans: "\<And>a b c. le a b \<Longrightarrow> le b c \<Longrightarrow> le a c"
  shows "sorted_wrt le xs \<Longrightarrow> sorted_wrt le (insort_by le x xs)"
proof (induction xs)
  case Nil
  then show ?case by simp
next
  case (Cons y ys)
  show ?case
  proof (cases "le x y")
    case True
    with Cons.prems trans show ?thesis by auto
  next
    case False
    with total have "le y x" by blast
    with False Cons show ?thesis by (auto simp: set_insort_by)
  qed
qed

lemma sorted_isort_by:
  assumes "\<And>a b. le a b \<or> le b a" and "\<And>a b c. le a b \<Longrightarrow> le b c \<Longrightarrow> le a c"
  shows "sorted_wrt le (isort_by le xs)"
  unfolding isort_by_def
  by (induction xs) (auto intro: sorted_insort_by[OF assms])

lemma sorts_by_isort:
  assumes "\<And>a b. le a b \<or> le b a" and "\<And>a b c. le a b \<Longrightarrow> le b c \<Longrightarrow> le a c"
  shows "sorts_by le (isort_by le)"
  unfolding sorts_by_def by (simp add: mset_isort_by sorted_isort_by[OF assms])


lemma dt_le_total: "dt_le a b \<or> dt_le b a"
  by (cases a; cases b) auto

lemma dt_le_trans: "dt_le a b \<Longrightarrow> dt_le b c \<Longrightarrow> dt_le a c"
  by (cases a; cases b; cases c) auto



lemma by_pc_alarm_datetime_total: "by_pc_alarm_datetime a b \<or> by_pc_alarm_datetime b a"
  unfolding by_pc_alarm_datetime_def using dt_le_total[of "datetime a" "datetime b"]
  by (cases "pc_id a" "pc_id b" rule: linorder_cases;
      cases "alarm a" "alarm b" rule: linorder_cases) auto

lemma by_pc_alarm_datetime_trans:
  "by_pc_alarm_datetime a b \<Longrightarrow> by_pc_alarm_datetime b c \<Longrightarrow> by_pc_alarm_datetime a c"
  unfolding by_pc_alarm_datetime_def
  by (elim disjE conjE) (auto intro: dt_le_trans less_trans)

section \<open>Facts about consolidation\<close>

lemma concat_nonempty: "concat (filter (\<lambda>df. df \<noteq> []) dfs) = concat dfs"
  by (induction dfs) auto

lemma parse_multiple_files_eq:
  "parse_multiple_files sort_values to_datetime file_infos =
     (let rows = concat (map (\<lambda>fi. parse_file to_datetime (lines fi) (filename fi)) file_infos)
      in if rows = [] then [] else sort_values rows)"
proof -
  let ?dfs = "map (\<lambda>fi. parse_file to_datetime (lines fi) (filename fi)) file_infos"
  have "filter (\<lambda>df. df \<noteq> []) ?dfs = [] \<longleftrightarrow> concat ?dfs = []"
    by (auto simp: filter_empty_conv)
  then show ?thesis
    unfolding parse_multiple_files_def Let_def by (simp only: concat_nonempty)
qed

lemma parse_multiple_files_nothing:
  assumes "list_all (\<lambda>fi. parse_file to_datetime (lines fi) (filename fi) = []) file_infos"
  shows "parse_multiple_files sort_values to_datetime file_infos = []"
proof -
  from assms have "concat (map (\<lambda>fi. parse_file to_datetime (lines fi) (filename fi)) file_infos) = []"
    by (auto simp: list_all_iff)
  then show ?thesis unfolding parse_multiple_files_eq Let_def by simp
qed

section \<open>Facts about the reader\<close>

lemma read_file_exhausted:
  "\<forall>enc \<in> set encodings. readlines enc path = None \<Longrightarrow> read_file readlines encodings path = None"
  by (induction encodings) auto

lemma map_filter_skip:
  "f p = None \<Longrightarrow> List.map_filter f (filter (\<lambda>q. q \<noteq> p) xs) = List.map_filter f xs"
  by (induction xs) (auto simp: List.map_filter_simps split: option.splits)

lemma map_filter_member:
  "x \<in> set xs \<Longrightarrow> f x = Some y \<Longrightarrow> y \<in> set (List.map_filter f xs)"
  by (auto simp: List.map_filter_def intro!: image_eqI[where x = x])

lemma read_all_files_eq:
  "read_all_files readlines encodings upper ext d =
     List.map_filter (read_file readlines encodings) (list_files upper ext d)"
  by (simp add: read_all_files_def Let_def List.map_filter_simps)

section \<open>The sample inputs, evaluated\<close>

lemmas sample_defs = line_cfn_def line_ok_def line_cfn_other_def sample_clock_def
  event_cfn_def event_ok_def event_cfn_other_def sample_file_def

lemma parse_line_cfn: "parse_line sample_clock line_cfn f = Some (event_cfn f)"
  by (simp add: sample_defs parser_defs matcher_defs)

lemma parse_line_ok: "parse_line sample_clock line_ok f = Some (event_ok f)"
  by (simp add: sample_defs parser_defs matcher_defs)

lemma parse_line_cfn_other: "parse_line sample_clock line_cfn_other f = Some (event_cfn_other f)"
  by (simp add: sample_defs parser_defs matcher_defs)

lemma parse_line_noise: "parse_line sample_clock ''-- shift change --'' f = None"
  by (simp add: parser_defs)

lemmas sample_parses = parse_line_cfn parse_line_ok parse_line_cfn_other parse_line_noise


lemma sample_grouping:
  "group_alarm_sequences (isort_by by_pc_alarm_datetime)
     [event_cfn_other ''B.log'', event_ok ''A.log'', event_cfn ''B.log''] =
   [event_cfn ''B.log'', event_ok ''A.log'', event_cfn_other ''B.log'']"
  by (simp add: group_alarm_sequences_def isort_by_def by_pc_alarm_datetime_def
      event_cfn_def event_ok_def event_cfn_other_def)

lemma sample_list_files:
  "list_files ascii_upper ''.log'' sample_directory = [''A.LOG'', ''b.log'', ''c.Log'']"
  by (simp add: list_files_def sample_directory_def sample_entries_def path_suffix_def ascii_upper_def)

lemma sample_read_c:
  "read_file sample_readlines encodings_to_try ''c.Log'' =
     Some \<lparr>filename = ''c.Log'', filepath = ''c.Log'', lines = [line_cfn],
       encoding = ''latin-1'', line_count = 1\<rparr>"
  by (simp add: encodings_to_try_def sample_readlines_def)

section \<open>The consolidator's and the grouper's claims\<close>




text \<open>
  Claim C7. When \<open>sort_values\<close> does what pandas documents of it, the grouped frame
  holds the rows of the input, each as often as the input (so the lengths are equal),
  and the rows of one device and one alarm code are in ascending order of \<open>datetime\<close>,
  those with no time last.
\<close>

theorem grouping_permutation:
  assumes "sorts_by by_pc_alarm_datetime sort_values"
  shows "mset (group_alarm_sequences sort_values df) = mset df \<and>
         length (group_alarm_sequences sort_values df) = length df \<and>
         sorted_wrt by_datetime
           (filter (\<lambda>e. pc_id e = d \<and> alarm e = a) (group_alarm_sequences sort_values df))"
proof -
  let ?out = "group_alarm_sequences sort_values df"
  from assms have m: "mset ?out = mset df" and s: "sorted_wrt by_pc_alarm_datetime ?out"
    unfolding group_alarm_sequences_def sorts_by_def by auto
  from m have l: "length ?out = length df" by (rule mset_eq_length)
  let ?g = "filter (\<lambda>e. pc_id e = d \<and> alarm e = a) ?out"
  from s have "sorted_wrt by_pc_alarm_datetime ?g" by (rule sorted_wrt_filter)
  then have "sorted_wrt by_datetime ?g"
  proof (rule sorted_wrt_mono_rel[rotated])
    fix x y assume "x \<in> set ?g" "y \<in> set ?g" "by_pc_alarm_datetime x y"
    then show "by_datetime x y"
      unfolding by_pc_alarm_datetime_def by_datetime_def by auto
  qed
  with m l show ?thesis by blast
qed

text \<open>The theorem for insertion sort and three records of two devices.\<close>

theorem grouping_permutation_witness:
  "group_alarm_sequences (isort_by by_pc_alarm_datetime)
     [event_cfn_other ''B.log'', event_ok ''A.log'', event_cfn ''B.log''] =
   [event_cfn ''B.log'', event_ok ''A.log'', event_cfn_other ''B.log''] \<and>
   length [event_cfn ''B.log'', event_ok ''A.log'', event_cfn_other ''B.log''] = 3 \<and>
   sorted_wrt by_datetime (filter (\<lambda>e. pc_id e = ''PC510A00'' \<and> alarm e = ''FMDOS01'')
     [event_cfn ''B.log'', event_ok ''A.log'', event_cfn_other ''B.log''])"
proof -
  have c: "sorts_by by_pc_alarm_datetime (isort_by by_pc_alarm_datetime)"
    by (rule sorts_by_isort [OF by_pc_alarm_datetime_total by_pc_alarm_datetime_trans])
  from grouping_permutation [OF c, where df =
      "[event_cfn_other ''B.log'', event_ok ''A.log'', event_cfn ''B.log'']"
      and d = "''PC510A00''" and a = "''FMDOS01''"]
  show ?thesis by (simp only: sample_grouping) simp
qed

text \<open>
  Claim C4, as amended. With no file, and with files that give no record,
  \<open>parse_multiple_files\<close> returns the empty frame. For the empty frame
  \<open>get_statistics\<close> returns the empty dictionary: it has no entry for any count.
  \<open>save_etl_statistics\<close> reads each missing count as \<open>0\<close>.
\<close>

theorem empty_consolidation:
  "parse_multiple_files sort_values to_datetime [] = [] \<and>
   (list_all (\<lambda>fi. parse_file to_datetime (lines fi) (filename fi) = []) file_infos \<longrightarrow>
      parse_multiple_files sort_values to_datetime file_infos = []) \<and>
   get_statistics [] = Map.empty \<and>
   make_etl_row (get_statistics []) (Some secs) st_status = Some (zero_row secs st_status)"
  by (simp add: parse_multiple_files_nothing get_statistics_def make_etl_row_def
      type_count_def get_or_zero_def zero_row_def)

text \<open>The theorem for a file whose only line is no alarm line.\<close>

theorem empty_consolidation_witness:
  "parse_multiple_files (isort_by by_datetime) sample_clock
     [sample_file ''A.log'' [''-- shift change --'']] = [] \<and>
   get_statistics [] ''total_records'' = None \<and>
   make_etl_row (get_statistics []) (Some 3) ''success'' = Some (zero_row 3 ''success'')"
proof -
  have "list_all (\<lambda>fi. parse_file sample_clock (lines fi) (filename fi) = [])
      [sample_file ''A.log'' [''-- shift change --'']]"
    by (simp add: parse_file_def List.map_filter_def sample_parses sample_file_def)
  with empty_consolidation [of "isort_by by_datetime" sample_clock
      "[sample_file ''A.log'' [''-- shift change --'']]" 3 "''success''"]
  show ?thesis by metis
qed

text \<open>
  Claim C4 as it is written fails: the statistics of the empty frame have no
  \<open>total_records\<close> and no \<open>records_by_type\<close>, where the statistics of a frame of
  one record have \<open>total_records = 1\<close>.
\<close>

theorem empty_statistics_counterexample:
  "get_statistics [] ''total_records'' = None \<and>
   get_statistics [] ''total_records'' \<noteq> Some (IntV 0) \<and>
   get_statistics [] ''records_by_type'' = None \<and>
   get_statistics [event_cfn ''A.log''] ''total_records'' = Some (IntV 1)"
  by (simp add: get_statistics_def event_cfn_def List.map_filter_def)

section \<open>The reader's claims\<close>

text \<open>
  Claim C8. When no encoding of the list decodes a file, \<open>read_file\<close> returns \<open>None\<close>
  for it, and \<open>read_all_files\<close> returns what it returns for the other files of the
  directory: every file that \<open>read_file\<close> reads is in the result.
\<close>

theorem undecodable_file_skipped:
  assumes "\<forall>enc \<in> set encodings. readlines enc path = None"
  shows "read_file readlines encodings path = None \<and>
         read_all_files readlines encodings upper ext d =
           List.map_filter (read_file readlines encodings)
             (filter (\<lambda>p. p \<noteq> path) (list_files upper ext d)) \<and>
         (p \<in> set (list_files upper ext d) \<and> read_file readlines encodings p = Some fi \<longrightarrow>
            fi \<in> set (read_all_files readlines encodings upper ext d))"
proof -
  have n: "read_file readlines encodings path = None"
    using assms read_file_exhausted [of encodings readlines path] by blast
  show ?thesis
    unfolding read_all_files_eq using n
    by (auto simp: map_filter_skip intro: map_filter_member)
qed

text \<open>
  The theorem for the sample directory: \<open>b.log\<close> cannot be decoded, the other two log
  files are read as latin-1 after utf-8 failed.
\<close>

theorem undecodable_file_skipped_witness:
  "read_file sample_readlines encodings_to_try ''b.log'' = None \<and>
   read_all_files sample_readlines encodings_to_try ascii_upper ''.log'' sample_directory =
     [\<lparr>filename = ''A.LOG'', filepath = ''A.LOG'', lines = [line_cfn], encoding = ''latin-1'',
        line_count = 1\<rparr>,
      \<lparr>filename = ''c.Log'', filepath = ''c.Log'', lines = [line_cfn], encoding = ''latin-1'',
        line_count = 1\<rparr>] \<and>
   \<lparr>filename = ''c.Log'', filepath = ''c.Log'', lines = [line_cfn], encoding = ''latin-1'',
      line_count = 1\<rparr>
     \<in> set (read_all_files sample_readlines encodings_to_try ascii_upper ''.log''
         sample_directory)"
proof -
  have h: "\<forall>enc \<in> set encodings_to_try. sample_readlines enc ''b.log'' = None"
    by (simp add: sample_readlines_def)
  have c: "''c.Log'' \<in> set (list_files ascii_upper ''.log'' sample_directory)"
    by (simp add: sample_list_files)
  have e: "List.map_filter (read_file sample_readlines encodings_to_try)
      (filter (\<lambda>p. p \<noteq> ''b.log'') (list_files ascii_upper ''.log'' sample_directory)) =
     [\<lparr>filename = ''A.LOG'', filepath = ''A.LOG'', lines = [line_cfn], encoding = ''latin-1'',
        line_count = 1\<rparr>,
      \<lparr>filename = ''c.Log'', filepath = ''c.Log'', lines = [line_cfn], encoding = ''latin-1'',
        line_count = 1\<rparr>]"
    by (simp add: sample_list_files List.map_filter_def encodings_to_try_def
        sample_readlines_def)
  from undecodable_file_skipped [where readlines = sample_readlines
      and encodings = encodings_to_try and path = "''b.log''" and upper = ascii_upper
      and ext = "''.log''" and d = sample_directory and p = "''c.Log''", OF h, unfolded e]
    c sample_read_c
  show ?thesis by blast
qed

text \<open>
  Claim C9. The result of \<open>list_files\<close> on a directory that can be listed is the
  sorted list of the names of the regular files whose suffix and the configured
  extension are equal when both are uppercased: a regular file is in the result if and
  only if they are.
\<close>

theorem list_files_by_suffix:
  "mset (list_files upper ext (Listing entries)) =
     mset (map name (filter (\<lambda>f. is_file f \<and> upper (path_suffix (name f)) = upper ext) entries)) \<and>
   sorted (list_files upper ext (Listing entries)) \<and>
   (f \<in> set entries \<and> is_file f \<longrightarrow>
      (name f \<in> set (list_files upper ext (Listing entries)) \<longleftrightarrow>
       upper (path_suffix (name f)) = upper ext))"
  by (auto simp: list_files_def)

text \<open>
  The theorem for the sample directory and the extension \<open>.log\<close>: \<open>A.LOG\<close>, \<open>b.log\<close>
  and \<open>c.Log\<close> are selected; \<open>notes.txt\<close>, the directory \<open>old.log\<close> and the file
  \<open>.log\<close> (whose suffix is empty) are not.
\<close>

theorem list_files_by_suffix_witness:
  "list_files ascii_upper ''.log'' sample_directory = [''A.LOG'', ''b.log'', ''c.Log''] \<and>
   sorted [''A.LOG'', ''b.log'', ''c.Log''] \<and>
   ascii_upper (path_suffix ''A.LOG'') = ascii_upper ''.log'' \<and>
   ascii_upper (path_suffix ''b.log'') = ascii_upper ''.log''"
proof -
  note l = sample_list_files [unfolded sample_directory_def]
  note t = list_files_by_suffix [where upper = ascii_upper and ext = "''.log''"
      and entries = sample_entries]
  have a: "\<lparr>name = ''A.LOG'', is_file = True\<rparr> \<in> set sample_entries \<and>
      is_file \<lparr>name = ''A.LOG'', is_file = True\<rparr>"
    by (simp add: sample_entries_def)
  have b: "\<lparr>name = ''b.log'', is_file = True\<rparr> \<in> set sample_entries \<and>
      is_file \<lparr>name = ''b.log'', is_file = True\<rparr>"
    by (simp add: sample_entries_def)
  from t [where f = "\<lparr>name = ''A.LOG'', is_file = True\<rparr>", THEN conjunct2, THEN conjunct2,
      rule_format, OF a]
    t [where f = "\<lparr>name = ''b.log'', is_file = True\<rparr>", THEN conjunct2, THEN conjunct2,
      rule_format, OF b]
    t [where f = "\<lparr>name = ''b.log'', is_file = True\<rparr>", THEN conjunct2, THEN conjunct1]
  show ?thesis by (simp add: l sample_list_files)
qed

section \<open>The loader's claims\<close>

text \<open>
  Claim C2, as amended. For the empty frame \<open>load_dataframe\<close> does not call
  \<open>to_sql\<close> and leaves both tables as they were; it logs a warning and returns
  \<open>False\<close>, the value it also returns when a load fails.
\<close>

theorem load_empty_dataframe:
  "load_dataframe to_sql now st [] table_name if_exists =
     (False, logger WARNING ''DataFrame vazio, nada para carregar'' st) \<and>
   alarm_logs (snd (load_dataframe to_sql now st [] table_name if_exists)) = alarm_logs st \<and>
   etl_statistics (snd (load_dataframe to_sql now st [] table_name if_exists)) =
     etl_statistics st"
  by (simp add: load_dataframe_def logger_def)

text \<open>The theorem for a fresh loader.\<close>

theorem load_empty_dataframe_witness:
  "load_dataframe append_to_sql 0 empty_loader [] ''alarm_logs'' ''append'' =
     (False, \<lparr>alarm_logs = [], etl_statistics = [], pending = [],
        logged = [(WARNING, ''DataFrame vazio, nada para carregar'')]\<rparr>)"
  using load_empty_dataframe [of append_to_sql 0 empty_loader "''alarm_logs''" "''append''"]
  by (simp add: logger_def empty_loader_def)

text \<open>
  Claim C2 as it is written fails: the empty frame is not reported as a success.
  \<open>load_dataframe\<close> returns \<open>False\<close> for it, as it does for a load that raises, and
  \<open>True\<close> only for a load that wrote.
\<close>

theorem load_empty_dataframe_counterexample:
  "fst (load_dataframe append_to_sql 0 empty_loader [] ''alarm_logs'' ''append'') = False \<and>
   fst (load_dataframe failing_to_sql 0 empty_loader [event_cfn ''A.log''] ''alarm_logs''
     ''append'') = False \<and>
   fst (load_dataframe append_to_sql 0 empty_loader [event_cfn ''A.log''] ''alarm_logs''
     ''append'') = True"
  by (simp add: load_dataframe_def append_to_sql_def failing_to_sql_def logger_def)

text \<open>
  Claim C10. In a session with nothing queued, \<open>save_etl_statistics\<close> either commits
  exactly one new row to the statistics table and returns \<open>True\<close>, or, when building
  the row or the commit fails, rolls back, leaves the table as it was and returns
  \<open>False\<close>. Nothing is left queued, and the alarm table is not touched.
\<close>

theorem save_etl_statistics_atomic:
  assumes "pending st = []"
  shows "(db_ok \<and> make_etl_row stats secs st_status = Some row \<longrightarrow>
            fst (save_etl_statistics db_ok st stats secs st_status) = True \<and>
            etl_statistics (snd (save_etl_statistics db_ok st stats secs st_status)) =
              etl_statistics st @ [row]) \<and>
         (\<not> db_ok \<or> make_etl_row stats secs st_status = None \<longrightarrow>
            fst (save_etl_statistics db_ok st stats secs st_status) = False \<and>
            etl_statistics (snd (save_etl_statistics db_ok st stats secs st_status)) =
              etl_statistics st) \<and>
         pending (snd (save_etl_statistics db_ok st stats secs st_status)) = [] \<and>
         alarm_logs (snd (save_etl_statistics db_ok st stats secs st_status)) = alarm_logs st"
  using assms
  by (cases "make_etl_row stats secs st_status"; cases db_ok)
    (simp_all add: save_etl_statistics_def session_add_def session_commit_def
      session_rollback_def logger_def Let_def)

text \<open>The theorem for a fresh loader, once with a commit that works and once without.\<close>

theorem save_etl_statistics_atomic_witness:
  "save_etl_statistics True empty_loader Map.empty (Some 3) ''success'' =
     (True, \<lparr>alarm_logs = [], etl_statistics = [zero_row 3 ''success''], pending = [],
        logged = [(INFO, ''Estatisticas de ETL salvas'')]\<rparr>) \<and>
   save_etl_statistics False empty_loader Map.empty (Some 3) ''success'' =
     (False, \<lparr>alarm_logs = [], etl_statistics = [], pending = [],
        logged = [(ERROR, ''Erro ao salvar estatisticas'')]\<rparr>) \<and>
   etl_statistics (snd (save_etl_statistics False empty_loader Map.empty (Some 3) ''success'')) =
     etl_statistics empty_loader"
proof -
  have p: "pending empty_loader = []" by (simp add: empty_loader_def)
  have r: "make_etl_row Map.empty (Some 3) ''success'' = Some (zero_row 3 ''success'')"
    by (simp add: make_etl_row_def type_count_def get_or_zero_def zero_row_def)
  have "\<not> False \<or> make_etl_row Map.empty (Some 3) ''success'' = None" by simp
  from save_etl_statistics_atomic [OF p, of False Map.empty "Some 3" "''success''",
      THEN conjunct2, THEN conjunct1, rule_format, OF this]
  show ?thesis
    by (simp add: save_etl_statistics_def r session_add_def session_commit_def
        session_rollback_def logger_def empty_loader_def)
qed

end
